theory Spec2Isabelle
  imports Complex_Main "HOL-Library.Stream"
begin

section \<open>Numbers and vectors\<close>

text \<open>
  The program computes with JavaScript numbers (IEEE 754 doubles) and GLSL floats.
  Three readings of a number are used, each where the claims need it.
  \<^item> The per-frame formulas of the shaders and of the instanced meshes are modelled
    over the reals. What is proved of them are identities between the expressions
    the code evaluates, which do not depend on how each operation rounds.
  \<^item> The position samplers and the construction of the entities are modelled in
    double precision: every arithmetic operation is followed by the rounding \<open>fl\<close>
    below, because the bounds on the sampled points are decided by the last bit.
  \<^item> The per-frame updates are modelled a second time over numbers that may be
    \<open>NaN\<close> or infinite (\<open>jsnum\<close>), for the claim about a non-finite frame delta.
  \<open>Math.random()\<close> is a parameter: each function takes the draws it makes, in the
  order it makes them.
\<close>

datatype vec3 = Vector3 (vx: real) (vy: real) (vz: real)

definition vadd :: "vec3 \<Rightarrow> vec3 \<Rightarrow> vec3" where
  "vadd a b = Vector3 (vx a + vx b) (vy a + vy b) (vz a + vz b)"

section \<open>Double precision\<close>

text \<open>
  \<open>round_even\<close> rounds a real to the nearest integer, ties to the even one. \<open>fl\<close> is
  the rounding of IEEE 754 binary64 to nearest, ties to even: a number of binary
  exponent \<open>e\<close> (at least \<open>-1022\<close>; below that the spacing of the subnormals stays) is
  rounded to a multiple of \<open>2 powr (e - 52)\<close>. Overflow to infinity is not modelled;
  every number of the samplers is below 32 in magnitude. The sign of zero is not
  modelled.
\<close>

definition round_even :: "real \<Rightarrow> int" where
  "round_even m =
     (let f = \<lfloor>m\<rfloor>
      in if m - of_int f < 1 / 2 then f
         else if 1 / 2 < m - of_int f then f + 1
         else if even f then f else f + 1)"

definition fl :: "real \<Rightarrow> real" where
  "fl x =
     (if x = 0 then 0
      else (let e = max \<lfloor>log 2 \<bar>x\<bar>\<rfloor> (- 1022);
                q = 2 powr of_int (e - 52)
            in of_int (round_even (x / q)) * q))"

text \<open>
  \<open>Math.PI\<close> is the double nearest to \<open>\<pi>\<close>. ECMAScript leaves the results of
  \<open>Math.sqrt\<close>, \<open>Math.cbrt\<close>, \<open>Math.sin\<close>, \<open>Math.cos\<close> and \<open>Math.acos\<close> to the
  implementation, up to an approximation; they are modelled as correctly rounded.
  The theorems below evaluate them only at 0 (where ECMAScript fixes \<open>cos\<close> and
  \<open>sin\<close>), at an exact square, and \<open>Math.cbrt\<close> at one point next to 1.
\<close>

definition Math_PI :: real where
  "Math_PI = 884279719003555 / 2 ^ 48"

definition Math_sqrt :: "real \<Rightarrow> real" where
  "Math_sqrt x = fl (sqrt x)"

definition Math_cbrt :: "real \<Rightarrow> real" where
  "Math_cbrt x = fl (root 3 x)"

definition Math_sin :: "real \<Rightarrow> real" where
  "Math_sin x = fl (sin x)"

definition Math_cos :: "real \<Rightarrow> real" where
  "Math_cos x = fl (cos x)"

definition Math_acos :: "real \<Rightarrow> real" where
  "Math_acos x = fl (arccos x)"


section \<open>Position sampler (src/utils/geometry.ts)\<close>

definition TREE_HEIGHT :: real where
  "TREE_HEIGHT = 14"

definition TREE_RADIUS_BASE :: real where
  "TREE_RADIUS_BASE = 5.5"

definition SCATTER_RADIUS :: real where
  "SCATTER_RADIUS = 25"

text \<open>
  \<open>getTreePosition\<close>: the three draws are the height, the angle and the radial draw.
  The constant \<open>hNorm\<close> of the source is computed and never used; it is left out.
\<close>

definition getTreePosition :: "real \<Rightarrow> real \<Rightarrow> real \<Rightarrow> vec3" where
  "getTreePosition u1 u2 u3 =
     (let y = fl (fl (u1 * TREE_HEIGHT) - fl (TREE_HEIGHT / 2));
          progressUp = fl (fl (y + fl (TREE_HEIGHT / 2)) / TREE_HEIGHT);
          currentRadius = fl (TREE_RADIUS_BASE * fl (1 - progressUp));
          angle = fl (fl (u2 * Math_PI) * 2);
          r = fl (Math_sqrt u3 * currentRadius);
          x = fl (r * Math_cos angle);
          z = fl (r * Math_sin angle)
      in Vector3 x y z)"

text \<open>\<open>getScatterPosition\<close>: the three draws are the radial draw, theta and phi.\<close>

definition getScatterPosition :: "real \<Rightarrow> real \<Rightarrow> real \<Rightarrow> vec3" where
  "getScatterPosition u1 u2 u3 =
     (let r = fl (Math_cbrt u1 * SCATTER_RADIUS);
          theta = fl (fl (u2 * Math_PI) * 2);
          phi = Math_acos (fl (fl (2 * u3) - 1));
          x = fl (fl (r * Math_sin phi) * Math_cos theta);
          y = fl (fl (r * Math_sin phi) * Math_sin theta);
          z = fl (r * Math_cos phi)
      in Vector3 x y z)"

section \<open>Built-ins of GLSL and three.js used by the components\<close>

text \<open>
  GLSL \<open>mix(x, y, a)\<close> is \<open>x * (1 - a) + y * a\<close>, \<open>mod(x, y)\<close> is
  \<open>x - y * floor (x / y)\<close>, and \<open>pow(x, y)\<close> is defined for \<open>x \<ge> 0\<close> only, which is
  where \<^const>\<open>powr\<close> agrees with it. \<open>Vector3.lerpVectors(v1, v2, alpha)\<close> of
  three.js sets each component to \<open>v1 + (v2 - v1) * alpha\<close>; this is the \<open>lerp\<close> of
  the specification. Over the reals its value at \<open>alpha = 1\<close> is \<open>v2\<close>; in doubles the
  sum \<open>v1 + (v2 - v1)\<close> can differ from \<open>v2\<close> in the last bit. \<open>Vector3.setScalar(s)\<close> sets all three components to \<open>s\<close>.
\<close>

definition mix :: "real \<Rightarrow> real \<Rightarrow> real \<Rightarrow> real" where
  "mix x y a = x * (1 - a) + y * a"

definition mix3 :: "vec3 \<Rightarrow> vec3 \<Rightarrow> real \<Rightarrow> vec3" where
  "mix3 p q a = Vector3 (mix (vx p) (vx q) a) (mix (vy p) (vy q) a) (mix (vz p) (vz q) a)"

definition glsl_mod :: "real \<Rightarrow> real \<Rightarrow> real" where
  "glsl_mod x y = x - y * of_int \<lfloor>x / y\<rfloor>"

definition pow :: "real \<Rightarrow> real \<Rightarrow> real" where
  "pow x y = x powr y"

definition lerpVectors :: "vec3 \<Rightarrow> vec3 \<Rightarrow> real \<Rightarrow> vec3" where
  "lerpVectors v1 v2 alpha =
     Vector3 (vx v1 + (vx v2 - vx v1) * alpha)
             (vy v1 + (vy v2 - vy v1) * alpha)
             (vz v1 + (vz v2 - vz v1) * alpha)"

definition setScalar :: "real \<Rightarrow> vec3" where
  "setScalar s = Vector3 s s s"

datatype Euler = Euler (ex: real) (ey: real) (ez: real)

text \<open>
  An \<open>Object3D\<close> is read through the three parts \<open>updateMatrix\<close> composes into its
  matrix: position, Euler rotation and scale.
\<close>

datatype Object3D = Object3D (obj_position: vec3) (obj_rotation: Euler) (obj_scale: vec3)

section \<open>Types (src/types.ts)\<close>

datatype TreeState = SCATTERED | TREE_SHAPE

record DualPosition =
  treePos :: vec3
  scatterPos :: vec3
  rotation :: Euler
  scale :: real
  speed :: real
  phase :: real

section \<open>Shader-driven particles\<close>

text \<open>Both vertex shaders declare the same \<open>easeInOutCubic\<close>.\<close>

definition easeInOutCubic :: "real \<Rightarrow> real" where
  "easeInOutCubic x =
     (if x < 0.5 then 4.0 * x * x * x else 1.0 - pow (-2.0 * x + 2.0) 3.0 / 2.0)"

text \<open>
  \<open>FoliageShader.vertexShader\<close> (src/components/Foliage.tsx), \<open>main\<close>: the value of
  \<open>pos\<close> that is handed to the model-view matrix.
\<close>

definition FoliageShader_main :: "real \<Rightarrow> real \<Rightarrow> vec3 \<Rightarrow> vec3 \<Rightarrow> real \<Rightarrow> vec3" where
  "FoliageShader_main uTime uProgress aScatterPos aTreePos aRandom =
     (let t = easeInOutCubic uProgress;
          pos = mix3 aScatterPos aTreePos t;
          noiseFreq = mix 0.5 2.5 t;
          noiseAmp = mix 0.8 0.15 t;
          jitter = sin (uTime * 5.0 + aRandom * 100.0) * 0.05;
          pos = Vector3 (vx pos + sin (uTime * noiseFreq + aRandom * 10.0) * noiseAmp)
                        (vy pos) (vz pos);
          pos = Vector3 (vx pos)
                        (vy pos + (cos (uTime * noiseFreq * 0.8 + aRandom * 10.0) * noiseAmp + jitter))
                        (vz pos);
          pos = Vector3 (vx pos) (vy pos)
                        (vz pos + sin (uTime * noiseFreq * 1.2 + aRandom * 10.0) * noiseAmp)
      in pos)"

text \<open>
  \<open>StarParticleShader.vertexShader\<close> (src/components/BottomParticles.tsx), \<open>main\<close>:
  the value of \<open>finalPos\<close>.
\<close>

definition StarParticleShader_main ::
    "real \<Rightarrow> real \<Rightarrow> vec3 \<Rightarrow> vec3 \<Rightarrow> real \<Rightarrow> real \<Rightarrow> vec3" where
  "StarParticleShader_main uTime uProgress aScatterPos aBasePos aRandom aSpeed =
     (let rise = glsl_mod (uTime * aSpeed * 2.0 + aRandom * 10.0) 4.0;
          animatedBasePos = Vector3 (vx aBasePos) (vy aBasePos + rise) (vz aBasePos);
          t = easeInOutCubic uProgress;
          finalPos = mix3 aScatterPos animatedBasePos t
      in finalPos)"

section \<open>Progress controller\<close>

text \<open>
  Modelled from the spec: \<open>damp\<close> is imported from the package \<open>maath/easing\<close>, whose
  code is not among the sources. The specification (4.3 and the glossary) describes
  the call \<open>current \<leftarrow> damp(current, goal, timeConstant, deltaTime)\<close> as an exponential
  smoothing step of a scalar toward a goal: the distance to the goal decays by the
  factor \<open>exp (- deltaTime / timeConstant)\<close>.
\<close>

definition damp :: "real \<Rightarrow> real \<Rightarrow> real \<Rightarrow> real \<Rightarrow> real" where
  "damp current goal timeConstant deltaTime =
     goal + (current - goal) * exp (- (deltaTime / timeConstant))"

text \<open>The progress after \<open>n\<close> updates with the same goal, time constant and step.\<close>

primrec damp_run :: "nat \<Rightarrow> real \<Rightarrow> real \<Rightarrow> real \<Rightarrow> real \<Rightarrow> real" where
  "damp_run 0 current goal timeConstant deltaTime = current"
| "damp_run (Suc n) current goal timeConstant deltaTime =
     damp (damp_run n current goal timeConstant deltaTime) goal timeConstant deltaTime"

text \<open>
  The components below take the controller step as the parameter \<open>dmp\<close>, called as
  \<open>dmp current goal smoothTime delta\<close>, so that what is proved of a frame holds for
  every \<open>damp\<close>.
\<close>

type_synonym damper = "real \<Rightarrow> real \<Rightarrow> real \<Rightarrow> real \<Rightarrow> real"

section \<open>Instanced rigid populations\<close>

subsection \<open>BottomGifts (src/components/BottomGifts.tsx)\<close>

record GiftItem =
  gift_treePos :: vec3
  gift_scatterPos :: vec3
  rotationY :: real
  tumbleAxis :: vec3
  gift_scale :: real
  gift_phase :: real
  gift_speed :: real

text \<open>The body of \<open>data.forEach\<close>: the transform written for one gift at progress \<open>t\<close>.\<close>

definition BottomGifts_item :: "real \<Rightarrow> real \<Rightarrow> GiftItem \<Rightarrow> Object3D" where
  "BottomGifts_item time t item =
     (let currentPos = lerpVectors (gift_scatterPos item) (gift_treePos item) t;
          (currentPos, rot) =
            (if t < 0.99 then
               (let floatAmp = (1 - t) * 2.0;
                    currentPos = Vector3 (vx currentPos)
                      (vy currentPos + sin (time * gift_speed item + gift_phase item) * floatAmp)
                      (vz currentPos);
                    currentPos = Vector3
                      (vx currentPos
                         + cos (time * 0.5 * gift_speed item + gift_phase item) * floatAmp * 0.5)
                      (vy currentPos) (vz currentPos);
                    tumbleSpeed = gift_speed item * 0.25
                in (currentPos,
                    Euler (time * tumbleSpeed * (1 - t))
                          (time * tumbleSpeed * (1 - t) + rotationY item)
                          (time * tumbleSpeed * (1 - t))))
             else (currentPos, Euler 0 (rotationY item) 0))
      in Object3D currentPos rot
           (setScalar (gift_scale item * (0.95 + 0.05 * sin (time + gift_phase item)))))"

text \<open>
  \<open>useFrame\<close>: nothing happens until the three instanced meshes are mounted; then the
  progress is damped toward the goal and every gift's matrix is written to the box
  and to both ribbons.
\<close>

record GiftsState =
  targetProgress :: real
  mesh :: "Object3D list"
  ribbon1 :: "Object3D list"
  ribbon2 :: "Object3D list"

definition BottomGifts_useFrame ::
    "damper \<Rightarrow> bool \<Rightarrow> TreeState \<Rightarrow> GiftItem list \<Rightarrow> real \<Rightarrow> real \<Rightarrow> GiftsState \<Rightarrow> GiftsState" where
  "BottomGifts_useFrame dmp mounted state data time delta s =
     (if \<not> mounted then s
      else
        (let goal = (if state = TREE_SHAPE then 1 else 0);
             t = dmp (targetProgress s) goal 1.0 delta;
             ms = map (BottomGifts_item time t) data
         in s\<lparr>targetProgress := t, mesh := ms, ribbon1 := ms, ribbon2 := ms\<rparr>))"

subsection \<open>OrnamentGroup (src/unnamed/part_001)\<close>

datatype ornament_type = sphere | box | star | diamond

text \<open>
  One round of the construction loop, in double precision; the draws are taken from
  the stream in call order.
\<close>

definition OrnamentGroup_new_item :: "ornament_type \<Rightarrow> real stream \<Rightarrow> DualPosition \<times> real stream" where
  "OrnamentGroup_new_item type g =
     (let (scaleBase, weight, g) =
            (if type = box then (fl 0.45, fl 0.2, g)
             else if type = sphere then ((if shd g > fl 0.8 then fl 0.45 else fl 0.25), fl 0.5, stl g)
             else if type = star then (fl 0.15, fl 0.9, g)
             else if type = diamond then (fl 0.35, fl 0.6, g)
             else (fl 0.25, fl 1.0, g));
          scaleVar = fl (shd g * fl 0.15);
          g = stl g;
          tp = getTreePosition (g !! 0) (g !! 1) (g !! 2);
          g = sdrop 3 g;
          sp = getScatterPosition (g !! 0) (g !! 1) (g !! 2);
          g = sdrop 3 g;
          rot = Euler (fl (g !! 0 * Math_PI)) (fl (g !! 1 * Math_PI)) 0;
          g = sdrop 2 g;
          spd = fl (fl (fl 0.2 + fl (shd g * fl 0.8)) * fl (1 + weight));
          g = stl g;
          ph = fl (fl (shd g * Math_PI) * 2);
          g = stl g
      in (\<lparr>treePos = tp, scatterPos = sp, rotation = rot, scale = fl (scaleBase + scaleVar),
           speed = spd, phase = ph\<rparr>, g))"

text \<open>
  \<open>for (let i = 0; i < count; i++) items.push(...)\<close>. The prop \<open>count\<close> is a number, not
  necessarily a whole or a positive one; it is compared with the loop counter as it
  is passed in.
\<close>

function OrnamentGroup_loop ::
    "ornament_type \<Rightarrow> real \<Rightarrow> nat \<Rightarrow> real stream \<Rightarrow> DualPosition list \<Rightarrow> DualPosition list" where
  "OrnamentGroup_loop type count i g items =
     (if real i < count then
        (case OrnamentGroup_new_item type g of
           (item, g') \<Rightarrow> OrnamentGroup_loop type count (Suc i) g' (items @ [item]))
      else items)"
  by pat_completeness auto
termination
proof (relation "measure (\<lambda>(type, count, i, g, items). nat \<lceil>count\<rceil> - i)")
  show "wf (measure (\<lambda>(type, count, i, g, items). nat \<lceil>count\<rceil> - i))"
    by simp
next
  fix type :: ornament_type and count :: real and i :: nat and g :: "real stream"
    and items :: "DualPosition list" and x :: "DualPosition \<times> real stream"
    and item :: DualPosition and g' :: "real stream"
  assume "real i < count"
  then have "real i < of_int \<lceil>count\<rceil>"
    by (rule less_le_trans) (rule le_of_int_ceiling)
  then have "int i < \<lceil>count\<rceil>"
    by linarith
  then have "i < nat \<lceil>count\<rceil>"
    by simp
  then show "((type, count, Suc i, g', items @ [item]), (type, count, i, g, items))
        \<in> measure (\<lambda>(type, count, i, g, items). nat \<lceil>count\<rceil> - i)"
    by simp
qed

declare OrnamentGroup_loop.simps [simp del]

definition OrnamentGroup_data :: "ornament_type \<Rightarrow> real \<Rightarrow> real stream \<Rightarrow> DualPosition list" where
  "OrnamentGroup_data type count g = OrnamentGroup_loop type count 0 g []"

text \<open>
  The component renders one \<open>instancedMesh\<close> with \<open>args = [geometry, material, count]\<close>
  and one more per extra layer. The constructor \<open>InstancedMesh\<close> of three.js allocates
  the instance matrices as \<open>new Float32Array(count * 16)\<close>. A typed array converts
  its length by \<open>ToIndex\<close>: the number is truncated toward zero, and a result below 0
  or above \<open>2\<^sup>5\<^sup>3 - 1\<close> raises a \<open>RangeError\<close>. A failure to allocate a very long array and
  a count that is \<open>NaN\<close> are not modelled. \<open>TypeError\<close> is what reading a property of
  \<open>null\<close> raises.
\<close>

datatype js_error = RangeError | TypeError

definition Float32Array_new :: "real \<Rightarrow> js_error + nat" where
  "Float32Array_new len =
     (let n = (if len < 0 then \<lceil>len\<rceil> else \<lfloor>len\<rfloor>)
      in if n < 0 \<or> 2 ^ 53 - 1 < n then Inl RangeError else Inr (nat n))"

definition InstancedMesh_new :: "real \<Rightarrow> js_error + nat" where
  "InstancedMesh_new count = Float32Array_new (count * 16)"

text \<open>
  A constructed group: its entities, the length of the matrix array of its mesh and
  of each extra layer.
\<close>

record OrnamentPopulation =
  pop_items :: "DualPosition list"
  pop_mesh :: nat
  pop_layers :: "nat list"

text \<open>
  The first render of \<open>OrnamentGroup\<close> with \<open>layers\<close> extra layers: the entity data
  are built first, then the meshes; the first mesh that cannot be constructed aborts
  the render. All meshes take the same \<open>count\<close>.
\<close>

definition OrnamentGroup_construct ::
    "ornament_type \<Rightarrow> real \<Rightarrow> nat \<Rightarrow> real stream \<Rightarrow> js_error + OrnamentPopulation" where
  "OrnamentGroup_construct type count layers g =
     (let items = OrnamentGroup_data type count g
      in case InstancedMesh_new count of
           Inl e \<Rightarrow> Inl e
         | Inr n \<Rightarrow> Inr \<lparr>pop_items = items, pop_mesh = n, pop_layers = replicate layers n\<rparr>)"

text \<open>The body of \<open>data.forEach\<close>: the transform written for one ornament at progress \<open>t\<close>.\<close>

definition OrnamentGroup_item :: "ornament_type \<Rightarrow> real \<Rightarrow> real \<Rightarrow> DualPosition \<Rightarrow> Object3D" where
  "OrnamentGroup_item type time t item =
     (let currentPos = lerpVectors (scatterPos item) (treePos item) t;
          floatAmp = (1 - t) * (if type = star then 3.0 else 1.5);
          yOffset = sin (time * speed item + phase item) * floatAmp;
          xOffset = cos (time * speed item * 0.5 + phase item) * floatAmp * 0.5;
          p = Vector3 (vx currentPos + xOffset) (vy currentPos + yOffset) (vz currentPos);
          rx = ex (rotation item) + time * 0.2 * (1 - t) * speed item;
          spinSpeed = (if type = diamond \<or> type = star then 0.5 else 0.1);
          ry = ey (rotation item) + time * spinSpeed * speed item;
          rz = ez (rotation item) + time * 0.1 * (1 - t)
      in Object3D p (Euler rx ry rz)
           (setScalar (scale item * (0.85 + 0.15 * sin (time * 2 + phase item)))))"

text \<open>
  \<open>useFrame\<close>: the main mesh receives every matrix, and so does each extra layer whose
  ref is set.
\<close>

record OrnamentState =
  orn_targetProgress :: real
  orn_mesh :: "Object3D list"
  extraRefs :: "Object3D list option list"

definition OrnamentGroup_useFrame ::
    "damper \<Rightarrow> bool \<Rightarrow> ornament_type \<Rightarrow> TreeState \<Rightarrow> DualPosition list \<Rightarrow> real \<Rightarrow> real
       \<Rightarrow> OrnamentState \<Rightarrow> OrnamentState" where
  "OrnamentGroup_useFrame dmp mounted type state data time delta s =
     (if \<not> mounted then s
      else
        (let goal = (if state = TREE_SHAPE then 1 else 0);
             t = dmp (orn_targetProgress s) goal 1.2 delta;
             ms = map (OrnamentGroup_item type time t) data
         in s\<lparr>orn_targetProgress := t, orn_mesh := ms,
               extraRefs := map (map_option (\<lambda>_. ms)) (extraRefs s)\<rparr>))"

section \<open>The per-frame updates on numbers that may be non-finite\<close>






















subsection \<open>Foliage and BottomParticles\<close>




subsection \<open>BottomGifts\<close>




subsection \<open>OrnamentGroup\<close>




subsection \<open>TopStar\<close>




section \<open>Double precision: evaluating the rounding\<close>







section \<open>Sampler bounds in double precision\<close>























section \<open>Shader path: easing and interpolation\<close>

lemma mix3_lerpVectors: "mix3 p q a = lerpVectors p q a"
  by (simp add: mix3_def mix_def lerpVectors_def algebra_simps)

lemma easeInOutCubic_0: "easeInOutCubic 0 = 0"
  by (simp add: easeInOutCubic_def)

lemma easeInOutCubic_1: "easeInOutCubic 1 = 1"
  by (simp add: easeInOutCubic_def pow_def)

lemma easeInOutCubic_cubic:
  assumes "0 \<le> p" and "p \<le> 1"
  shows "easeInOutCubic p = (if p < 0.5 then 4 * p ^ 3 else 1 - (- 2 * p + 2) ^ 3 / 2)"
proof (cases "p < 0.5")
  case True
  then show ?thesis
    by (simp add: easeInOutCubic_def power3_eq_cube mult.assoc)
next
  case False
  have "0 \<le> - 2 * p + 2" using assms(2) by simp
  then have "(- 2 * p + 2) powr 3 = (- 2 * p + 2) ^ 3"
    by (rule powr_numeral)
  with False show ?thesis
    by (simp add: easeInOutCubic_def pow_def)
qed

lemma lerpVectors_0: "lerpVectors p q 0 = p"
  by (simp add: lerpVectors_def)

lemma FoliageShader_main_split:
  "FoliageShader_main uTime p s a r =
     (let t = easeInOutCubic p; f = mix 0.5 2.5 t; A = mix 0.8 0.15 t
      in vadd (lerpVectors s a t)
           (Vector3 (sin (uTime * f + r * 10) * A)
                    (cos (uTime * f * 0.8 + r * 10) * A + sin (uTime * 5 + r * 100) * 0.05)
                    (sin (uTime * f * 1.2 + r * 10) * A)))"
  by (simp add: FoliageShader_main_def Let_def mix3_lerpVectors vadd_def)

lemma StarParticleShader_main_split:
  "StarParticleShader_main uTime p s b r spd =
     vadd (lerpVectors s b (easeInOutCubic p))
          (Vector3 0 (glsl_mod (uTime * spd * 2 + r * 10) 4 * easeInOutCubic p) 0)"
  by (simp add: StarParticleShader_main_def Let_def mix3_lerpVectors vadd_def lerpVectors_def
      algebra_simps)

text \<open>
  C2. In both vertex shaders, for every progress \<open>p\<close> in \<open>[0, 1]\<close> the easing applied
  before mixing is \<open>t = (if p < 0.5 then 4 p\<^sup>3 else 1 - (-2 p + 2)\<^sup>3 / 2)\<close>, and the
  position is \<open>lerp (scatteredPosition, assembledPosition, t)\<close> plus the shader's
  offset: the wind and jitter terms for the foliage, the rise scaled by \<open>t\<close> for the
  star particles.
\<close>

theorem shader_ease_then_lerp:
  assumes "0 \<le> p" and "p \<le> 1"
  shows "easeInOutCubic p = (if p < 0.5 then 4 * p ^ 3 else 1 - (- 2 * p + 2) ^ 3 / 2) \<and>
         mix3 s a (easeInOutCubic p) = lerpVectors s a (easeInOutCubic p) \<and>
         FoliageShader_main uTime p s a r =
           (let t = easeInOutCubic p; f = mix 0.5 2.5 t; A = mix 0.8 0.15 t
            in vadd (lerpVectors s a t)
                 (Vector3 (sin (uTime * f + r * 10) * A)
                          (cos (uTime * f * 0.8 + r * 10) * A + sin (uTime * 5 + r * 100) * 0.05)
                          (sin (uTime * f * 1.2 + r * 10) * A))) \<and>
         StarParticleShader_main uTime p s b r spd =
           vadd (lerpVectors s b (easeInOutCubic p))
                (Vector3 0 (glsl_mod (uTime * spd * 2 + r * 10) 4 * easeInOutCubic p) 0)"
  using easeInOutCubic_cubic [OF assms] mix3_lerpVectors FoliageShader_main_split
    StarParticleShader_main_split by blast

theorem shader_ease_then_lerp_witness:
  "(0::real) \<le> 1 / 4 \<and> (1::real) / 4 \<le> 1 \<and> easeInOutCubic (1 / 4) = 1 / 16 \<and>
   StarParticleShader_main 0 (1 / 4) (Vector3 0 0 0) (Vector3 16 16 16) 0 1 = Vector3 1 1 1"
proof -
  have h: "(0::real) \<le> 1 / 4" "(1::real) / 4 \<le> 1" by simp_all
  have e: "easeInOutCubic (1 / 4) = 1 / 16"
    using shader_ease_then_lerp [OF h] by (simp add: power3_eq_cube)
  have "StarParticleShader_main 0 (1 / 4) (Vector3 0 0 0) (Vector3 16 16 16) 0 1 = Vector3 1 1 1"
    using shader_ease_then_lerp [OF h, where s = "Vector3 0 0 0" and b = "Vector3 16 16 16"
        and uTime = 0 and r = 0 and spd = 1]
    by (simp add: e lerpVectors_def vadd_def glsl_mod_def)
  with h e show ?thesis by blast
qed

section \<open>Rigid path: position, per frame\<close>

lemma BottomGifts_item_position:
  "obj_position (BottomGifts_item time t item) =
     vadd (lerpVectors (gift_scatterPos item) (gift_treePos item) t)
       (if t < 0.99
        then Vector3 (cos (time * 0.5 * gift_speed item + gift_phase item) * ((1 - t) * 2) * 0.5)
                     (sin (time * gift_speed item + gift_phase item) * ((1 - t) * 2)) 0
        else Vector3 0 0 0)"
  by (simp add: BottomGifts_item_def Let_def vadd_def lerpVectors_def)

lemma OrnamentGroup_item_position:
  "obj_position (OrnamentGroup_item type time t item) =
     vadd (lerpVectors (scatterPos item) (treePos item) t)
       (Vector3 (cos (time * speed item * 0.5 + phase item)
                   * ((1 - t) * (if type = star then 3 else 1.5)) * 0.5)
                (sin (time * speed item + phase item)
                   * ((1 - t) * (if type = star then 3 else 1.5))) 0)"
  by (simp add: OrnamentGroup_item_def Let_def vadd_def lerpVectors_def)

lemma BottomGifts_item_rotation:
  "obj_rotation (BottomGifts_item time t item) =
     (if t < 0.99
      then Euler (time * (gift_speed item * 0.25) * (1 - t))
                 (time * (gift_speed item * 0.25) * (1 - t) + rotationY item)
                 (time * (gift_speed item * 0.25) * (1 - t))
      else Euler 0 (rotationY item) 0)"
  by (simp add: BottomGifts_item_def Let_def)

lemma OrnamentGroup_item_rotation:
  "obj_rotation (OrnamentGroup_item type time t item) =
     Euler (ex (rotation item) + time * 0.2 * (1 - t) * speed item)
           (ey (rotation item) + time * (if type = diamond \<or> type = star then 0.5 else 0.1) * speed item)
           (ez (rotation item) + time * 0.1 * (1 - t))"
  by (simp add: OrnamentGroup_item_def Let_def)

lemma BottomGifts_item_scale:
  "obj_scale (BottomGifts_item time t item) =
     setScalar (gift_scale item * (0.95 + 0.05 * sin (time + gift_phase item)))"
  by (simp add: BottomGifts_item_def Let_def)

lemma OrnamentGroup_item_scale:
  "obj_scale (OrnamentGroup_item type time t item) =
     setScalar (scale item * (0.85 + 0.15 * sin (time * 2 + phase item)))"
  by (simp add: OrnamentGroup_item_def Let_def)

lemma BottomGifts_useFrame_mounted:
  "targetProgress (BottomGifts_useFrame dmp True state data time delta s) =
     dmp (targetProgress s) (if state = TREE_SHAPE then 1 else 0) 1 delta"
  "mesh (BottomGifts_useFrame dmp True state data time delta s) =
     map (BottomGifts_item time (dmp (targetProgress s) (if state = TREE_SHAPE then 1 else 0) 1 delta)) data"
  by (simp_all add: BottomGifts_useFrame_def Let_def)

lemma OrnamentGroup_useFrame_mounted:
  "orn_targetProgress (OrnamentGroup_useFrame dmp True type state data time delta s) =
     dmp (orn_targetProgress s) (if state = TREE_SHAPE then 1 else 0) 1.2 delta"
  "orn_mesh (OrnamentGroup_useFrame dmp True type state data time delta s) =
     map (OrnamentGroup_item type time
            (dmp (orn_targetProgress s) (if state = TREE_SHAPE then 1 else 0) 1.2 delta)) data"
  by (simp_all add: OrnamentGroup_useFrame_def Let_def)

text \<open>
  C3. In both instanced populations, in every frame that finds the meshes mounted
  and for every entity, the position written is \<open>lerpVectors scatterPos treePos t\<close> plus the float offset, where
  \<open>t\<close> is the value the controller step returned in that frame: the interpolation is
  linear in the damped scalar itself, and no easing curve is applied to it.
\<close>

theorem rigid_position_is_linear_lerp:
  assumes "i < length gifts" and "j < length ornaments"
  shows "(let s' = BottomGifts_useFrame dmp True state gifts time delta s;
              t = targetProgress s'; item = gifts ! i
          in t = dmp (targetProgress s) (if state = TREE_SHAPE then 1 else 0) 1.0 delta \<and>
             obj_position (mesh s' ! i) =
               vadd (lerpVectors (gift_scatterPos item) (gift_treePos item) t)
                 (if t < 0.99
                  then Vector3 (cos (time * 0.5 * gift_speed item + gift_phase item) * ((1 - t) * 2) * 0.5)
                               (sin (time * gift_speed item + gift_phase item) * ((1 - t) * 2)) 0
                  else Vector3 0 0 0)) \<and>
         (let s' = OrnamentGroup_useFrame dmp True type state ornaments time delta os;
              t = orn_targetProgress s'; item = ornaments ! j
          in t = dmp (orn_targetProgress os) (if state = TREE_SHAPE then 1 else 0) 1.2 delta \<and>
             obj_position (orn_mesh s' ! j) =
               vadd (lerpVectors (scatterPos item) (treePos item) t)
                 (Vector3 (cos (time * speed item * 0.5 + phase item)
                             * ((1 - t) * (if type = star then 3 else 1.5)) * 0.5)
                          (sin (time * speed item + phase item)
                             * ((1 - t) * (if type = star then 3 else 1.5))) 0))"
proof -
  have g: "mesh (BottomGifts_useFrame dmp True state gifts time delta s) ! i =
      BottomGifts_item time (targetProgress (BottomGifts_useFrame dmp True state gifts time delta s))
        (gifts ! i)"
    using assms(1) by (simp only: BottomGifts_useFrame_mounted nth_map)
  have o: "orn_mesh (OrnamentGroup_useFrame dmp True type state ornaments time delta os) ! j =
      OrnamentGroup_item type time
        (orn_targetProgress (OrnamentGroup_useFrame dmp True type state ornaments time delta os))
        (ornaments ! j)"
    using assms(2) by (simp only: OrnamentGroup_useFrame_mounted nth_map)
  show ?thesis
    unfolding Let_def g o
    by (simp only: BottomGifts_item_position OrnamentGroup_item_position
        BottomGifts_useFrame_mounted OrnamentGroup_useFrame_mounted) simp
qed


theorem rigid_position_is_linear_lerp_witness:
  "(0::nat) < length [\<lparr>gift_treePos = Vector3 1 2 3, gift_scatterPos = Vector3 0 0 0, rotationY = 0,
        tumbleAxis = Vector3 1 0 0, gift_scale = 1, gift_phase = 0, gift_speed = 1\<rparr>] \<and>
   (0::nat) < length [\<lparr>treePos = Vector3 4 5 6, scatterPos = Vector3 0 0 0, rotation = Euler 0 0 0,
        scale = 1, speed = 1, phase = 0\<rparr>] \<and>
   obj_position (mesh (BottomGifts_useFrame damp True TREE_SHAPE
        [\<lparr>gift_treePos = Vector3 1 2 3, gift_scatterPos = Vector3 0 0 0, rotationY = 0,
          tumbleAxis = Vector3 1 0 0, gift_scale = 1, gift_phase = 0, gift_speed = 1\<rparr>] 0 0
        \<lparr>targetProgress = 1, mesh = [], ribbon1 = [], ribbon2 = []\<rparr>) ! 0) = Vector3 1 2 3 \<and>
   obj_position (orn_mesh (OrnamentGroup_useFrame damp True box TREE_SHAPE
        [\<lparr>treePos = Vector3 4 5 6, scatterPos = Vector3 0 0 0, rotation = Euler 0 0 0,
          scale = 1, speed = 1, phase = 0\<rparr>] 0 0
        \<lparr>orn_targetProgress = 1, orn_mesh = [], extraRefs = []\<rparr>) ! 0) = Vector3 4 5 6"
  using rigid_position_is_linear_lerp [of 0
      "[\<lparr>gift_treePos = Vector3 1 2 3, gift_scatterPos = Vector3 0 0 0, rotationY = 0,
          tumbleAxis = Vector3 1 0 0, gift_scale = 1, gift_phase = 0, gift_speed = 1\<rparr>]"
      0
      "[\<lparr>treePos = Vector3 4 5 6, scatterPos = Vector3 0 0 0, rotation = Euler 0 0 0,
          scale = 1, speed = 1, phase = 0\<rparr>]"
      damp TREE_SHAPE 0 0 "\<lparr>targetProgress = 1, mesh = [], ribbon1 = [], ribbon2 = []\<rparr>"
      box "\<lparr>orn_targetProgress = 1, orn_mesh = [], extraRefs = []\<rparr>"]
  by (simp add: Let_def damp_def lerpVectors_def vadd_def)

section \<open>Interpolation boundary\<close>

lemma mix3_0: "mix3 p q 0 = p"
  by (simp add: mix3_def mix_def)

lemma mix3_1: "mix3 p q 1 = q"
  by (simp add: mix3_def mix_def)

lemma vadd_zero: "vadd p (Vector3 0 0 0) = p"
  by (simp add: vadd_def)

text \<open>
  C1, as stated, fails: the rendered position carries the procedural offsets. At
  progress 0, time 0 and randomness 0 the foliage shader places a particle 0.8 above
  its scattered position.
\<close>

theorem interpolation_boundary_counterexample:
  "FoliageShader_main 0 0 (Vector3 0 0 0) (Vector3 1 1 1) 0 \<noteq> Vector3 0 0 0"
  by (simp add: FoliageShader_main_def Let_def easeInOutCubic_def mix3_def mix_def)

text \<open>
  C1, amended. At progress 0 the interpolated base position equals the scattered
  position, in the shader path (\<open>mix\<close> after easing) and in the rigid path
  (\<open>lerpVectors\<close>); at progress 1 the \<open>mix\<close> of the shader path equals the assembled
  position. The rendered position is the base plus the population's offset: the
  foliage keeps a wind and jitter term at both ends; the star particles are exactly
  at the scattered position at progress 0 and are lifted by the rise at progress 1;
  the rigid instances float around the scattered position at progress 0, and at
  progress 1 their float offset is zero, so that the position written is the value
  of \<open>lerpVectors\<close> at \<open>alpha = 1\<close>. Whether that value, the double
  \<open>scatter + (assembled - scatter) * 1\<close>, is the assembled position to the last bit
  is left open.
\<close>

theorem interpolation_boundary_base:
  "mix3 s a (easeInOutCubic 0) = s \<and>
   mix3 s a (easeInOutCubic 1) = a \<and>
   lerpVectors s a 0 = s \<and>
   FoliageShader_main uTime 0 s a r =
     vadd s (Vector3 (sin (uTime * 0.5 + r * 10) * 0.8)
                     (cos (uTime * 0.5 * 0.8 + r * 10) * 0.8 + sin (uTime * 5 + r * 100) * 0.05)
                     (sin (uTime * 0.5 * 1.2 + r * 10) * 0.8)) \<and>
   FoliageShader_main uTime 1 s a r =
     vadd a (Vector3 (sin (uTime * 2.5 + r * 10) * 0.15)
                     (cos (uTime * 2.5 * 0.8 + r * 10) * 0.15 + sin (uTime * 5 + r * 100) * 0.05)
                     (sin (uTime * 2.5 * 1.2 + r * 10) * 0.15)) \<and>
   StarParticleShader_main uTime 0 s b r spd = s \<and>
   StarParticleShader_main uTime 1 s b r spd =
     vadd b (Vector3 0 (glsl_mod (uTime * spd * 2 + r * 10) 4) 0) \<and>
   obj_position (BottomGifts_item time 0 gift) =
     vadd (gift_scatterPos gift)
          (Vector3 (cos (time * 0.5 * gift_speed gift + gift_phase gift))
                   (sin (time * gift_speed gift + gift_phase gift) * 2) 0) \<and>
   obj_position (BottomGifts_item time 1 gift) =
     lerpVectors (gift_scatterPos gift) (gift_treePos gift) 1 \<and>
   obj_position (OrnamentGroup_item type time 0 item) =
     vadd (scatterPos item)
          (Vector3 (cos (time * speed item * 0.5 + phase item) * (if type = star then 3 else 1.5) * 0.5)
                   (sin (time * speed item + phase item) * (if type = star then 3 else 1.5)) 0) \<and>
   obj_position (OrnamentGroup_item type time 1 item) =
     lerpVectors (scatterPos item) (treePos item) 1"
proof -
  have f0: "FoliageShader_main uTime 0 s a r =
     vadd s (Vector3 (sin (uTime * 0.5 + r * 10) * 0.8)
                     (cos (uTime * 0.5 * 0.8 + r * 10) * 0.8 + sin (uTime * 5 + r * 100) * 0.05)
                     (sin (uTime * 0.5 * 1.2 + r * 10) * 0.8))"
    by (simp add: FoliageShader_main_def Let_def easeInOutCubic_0 mix_def mix3_0 vadd_def)
  have f1: "FoliageShader_main uTime 1 s a r =
     vadd a (Vector3 (sin (uTime * 2.5 + r * 10) * 0.15)
                     (cos (uTime * 2.5 * 0.8 + r * 10) * 0.15 + sin (uTime * 5 + r * 100) * 0.05)
                     (sin (uTime * 2.5 * 1.2 + r * 10) * 0.15))"
    by (simp add: FoliageShader_main_def Let_def easeInOutCubic_1 mix_def mix3_1 vadd_def)
  have s0: "StarParticleShader_main uTime 0 s b r spd = s"
    by (simp add: StarParticleShader_main_def Let_def easeInOutCubic_0 mix3_0)
  have s1: "StarParticleShader_main uTime 1 s b r spd =
     vadd b (Vector3 0 (glsl_mod (uTime * spd * 2 + r * 10) 4) 0)"
    by (simp add: StarParticleShader_main_def Let_def easeInOutCubic_1 mix3_1 vadd_def)
  have g0: "obj_position (BottomGifts_item time 0 gift) =
     vadd (gift_scatterPos gift)
          (Vector3 (cos (time * 0.5 * gift_speed gift + gift_phase gift))
                   (sin (time * gift_speed gift + gift_phase gift) * 2) 0)"
    by (simp add: BottomGifts_item_position lerpVectors_0)
  have g1: "obj_position (BottomGifts_item time 1 gift) =
     lerpVectors (gift_scatterPos gift) (gift_treePos gift) 1"
    by (simp add: BottomGifts_item_position vadd_zero)
  have o0: "obj_position (OrnamentGroup_item type time 0 item) =
     vadd (scatterPos item)
          (Vector3 (cos (time * speed item * 0.5 + phase item) * (if type = star then 3 else 1.5) * 0.5)
                   (sin (time * speed item + phase item) * (if type = star then 3 else 1.5)) 0)"
    by (simp add: OrnamentGroup_item_position lerpVectors_0)
  have o1: "obj_position (OrnamentGroup_item type time 1 item) =
     lerpVectors (scatterPos item) (treePos item) 1"
    by (simp add: OrnamentGroup_item_position vadd_zero)
  show ?thesis
    by (simp only: easeInOutCubic_0 easeInOutCubic_1 mix3_0 mix3_1 lerpVectors_0
        f0 f1 s0 s1 g0 g1 o0 o1 simp_thms)
qed

section \<open>Rotation at rest and scale pulse of the rigid instances\<close>

text \<open>
  C5, as stated, fails for the ornaments: at progress 1 an ornament whose stored
  rotation is \<open>(1, 1, 0)\<close> is not rotated by \<open>(0, 1, 0)\<close>.
\<close>

theorem settle_rotation_counterexample:
  "obj_rotation (OrnamentGroup_item sphere 1 1
      \<lparr>treePos = Vector3 0 0 0, scatterPos = Vector3 0 0 0, rotation = Euler 1 1 0,
       scale = 1, speed = 1, phase = 0\<rparr>) \<noteq> Euler 0 1 0"
  by (simp add: OrnamentGroup_item_def Let_def)

text \<open>
  C5, amended. For every gift, whenever the damped progress is at least 0.99 the
  rotation written is exactly \<open>(0, rotationY, 0)\<close>. The ornaments have no settle
  threshold: at every progress their rotation is the stored rotation plus
  \<open>time * 0.2 * (1 - t) * speed\<close> about x, a spin \<open>time * spinSpeed * speed\<close> about y that
  never stops, and \<open>time * 0.1 * (1 - t)\<close> about z.
\<close>

theorem settle_rotation:
  "(0.99 \<le> t \<longrightarrow> obj_rotation (BottomGifts_item time t gift) = Euler 0 (rotationY gift) 0) \<and>
   obj_rotation (OrnamentGroup_item type time t item) =
     Euler (ex (rotation item) + time * 0.2 * (1 - t) * speed item)
           (ey (rotation item) + time * (if type = diamond \<or> type = star then 0.5 else 0.1) * speed item)
           (ez (rotation item) + time * 0.1 * (1 - t))"
  by (simp add: BottomGifts_item_rotation OrnamentGroup_item_rotation)

theorem settle_rotation_witness:
  "(0.99::real) \<le> 1 \<and>
   obj_rotation (BottomGifts_item 5 1
      \<lparr>gift_treePos = Vector3 1 2 3, gift_scatterPos = Vector3 0 0 0, rotationY = 2,
       tumbleAxis = Vector3 1 0 0, gift_scale = 1, gift_phase = 0, gift_speed = 1\<rparr>) = Euler 0 2 0"
  using settle_rotation [of 1 5
      "\<lparr>gift_treePos = Vector3 1 2 3, gift_scatterPos = Vector3 0 0 0, rotationY = 2,
        tumbleAxis = Vector3 1 0 0, gift_scale = 1, gift_phase = 0, gift_speed = 1\<rparr>"]
  by simp

text \<open>
  C7, as stated, fails for the ornaments: at time 0 and phase 0 an ornament of base
  scale 1 is written with scale 0.85, not 0.95.
\<close>

theorem breathing_scale_counterexample:
  "obj_scale (OrnamentGroup_item sphere 0 0
      \<lparr>treePos = Vector3 0 0 0, scatterPos = Vector3 0 0 0, rotation = Euler 0 0 0,
       scale = 1, speed = 1, phase = 0\<rparr>) \<noteq> setScalar (1 * (0.95 + 0.05 * sin (0 + 0)))"
  by (simp add: OrnamentGroup_item_def Let_def setScalar_def)

text \<open>
  C7, amended. At every frame and for every progress, a gift is written with scale
  \<open>scale * (0.95 + 0.05 * sin (time + phase))\<close> and an ornament with scale
  \<open>scale * (0.85 + 0.15 * sin (time * 2 + phase))\<close>.
\<close>

theorem breathing_scale:
  "obj_scale (BottomGifts_item time t gift) =
     setScalar (gift_scale gift * (0.95 + 0.05 * sin (time + gift_phase gift))) \<and>
   obj_scale (OrnamentGroup_item type time t item) =
     setScalar (scale item * (0.85 + 0.15 * sin (time * 2 + phase item)))"
  by (simp add: BottomGifts_item_scale OrnamentGroup_item_scale)

section \<open>Population construction\<close>

lemma OrnamentGroup_loop_length:
  "length (OrnamentGroup_loop type count i g items) = length items + (nat \<lceil>count\<rceil> - i)"
proof (induction type count i g items rule: OrnamentGroup_loop.induct)
  case (1 type count i g items)
  show ?case
  proof (cases "real i < count")
    case True
    obtain item g' where ng: "OrnamentGroup_new_item type g = (item, g')"
      by (cases "OrnamentGroup_new_item type g")
    have "real i < of_int \<lceil>count\<rceil>"
      using True by (rule less_le_trans) (rule le_of_int_ceiling)
    then have "int i < \<lceil>count\<rceil>"
      by linarith
    then have lt: "i < nat \<lceil>count\<rceil>"
      by simp
    have "length (OrnamentGroup_loop type count (Suc i) g' (items @ [item]))
          = length (items @ [item]) + (nat \<lceil>count\<rceil> - Suc i)"
      using "1.IH" [OF True ng [symmetric]] .
    with True ng lt show ?thesis
      by (subst OrnamentGroup_loop.simps) simp
  next
    case False
    then have "count \<le> real i"
      by simp
    then have "nat \<lceil>count\<rceil> - i = 0"
      by simp
    with False show ?thesis
      by (subst OrnamentGroup_loop.simps) simp
  qed
qed

lemma OrnamentGroup_data_length:
  "length (OrnamentGroup_data type count g) = nat \<lceil>count\<rceil>"
  by (simp add: OrnamentGroup_data_def OrnamentGroup_loop_length)

lemma InstancedMesh_new_small:
  assumes "- 1 / 16 < count" and "count \<le> 0"
  shows "InstancedMesh_new count = Inr 0"
proof -
  have "- 1 < count * 16" "count * 16 \<le> 0"
    using assms by simp_all
  then have c: "\<lceil>count * 16\<rceil> = 0" "\<lfloor>count * 16\<rfloor> \<le> 0"
    by (simp_all add: ceiling_eq_iff floor_le_iff)
  show ?thesis
  proof (cases "count * 16 < 0")
    case True
    then show ?thesis
      by (simp add: InstancedMesh_new_def Float32Array_new_def c)
  next
    case False
    with \<open>count * 16 \<le> 0\<close> have "count * 16 = 0" by simp
    then show ?thesis
      by (simp add: InstancedMesh_new_def Float32Array_new_def)
  qed
qed

lemma InstancedMesh_new_negative:
  assumes "count \<le> - 1 / 16"
  shows "InstancedMesh_new count = Inl RangeError"
proof -
  have le: "count * 16 \<le> - 1"
    using assms by simp
  then have "\<lceil>count * 16\<rceil> \<le> - 1"
    by (simp add: ceiling_le_iff)
  then show ?thesis
    using le by (simp add: InstancedMesh_new_def Float32Array_new_def)
qed

text \<open>
  C8, as stated, fails: constructing an ornament group with count 0 raises nothing
  and yields the empty population, with empty matrix arrays.
\<close>

theorem OrnamentGroup_zero_count_counterexample:
  "OrnamentGroup_construct sphere 0 0 (sconst 0) =
     Inr \<lparr>pop_items = [], pop_mesh = 0, pop_layers = []\<rparr>"
proof -
  have "length (OrnamentGroup_data sphere 0 (sconst 0)) = 0"
    by (simp add: OrnamentGroup_data_length)
  then have "OrnamentGroup_data sphere 0 (sconst 0) = []"
    by simp
  then show ?thesis
    by (simp add: OrnamentGroup_construct_def InstancedMesh_new_def Float32Array_new_def)
qed

text \<open>
  C8, amended. No configuration check rejects an entity count less than or equal to
  0: the entity list built is empty. For a count in \<open>(-1/16, 0]\<close>, in particular for
  count 0, the construction completes and yields the empty population. For a count
  of \<open>-1/16\<close> or less the construction does fail, but only when the instanced mesh
  allocates its matrix array of \<open>count * 16\<close> floats, with the \<open>RangeError\<close> of the typed
  array.
\<close>

theorem OrnamentGroup_nonpositive_count:
  assumes "count \<le> 0"
  shows "OrnamentGroup_data type count g = [] \<and>
         (- 1 / 16 < count \<longrightarrow>
            OrnamentGroup_construct type count layers g =
              Inr \<lparr>pop_items = [], pop_mesh = 0, pop_layers = replicate layers 0\<rparr>) \<and>
         (count \<le> - 1 / 16 \<longrightarrow>
            OrnamentGroup_construct type count layers g = Inl RangeError)"
proof -
  have "\<lceil>count\<rceil> \<le> 0"
    using assms by (simp add: ceiling_le_iff)
  then have "length (OrnamentGroup_data type count g) = 0"
    by (simp add: OrnamentGroup_data_length)
  then have d: "OrnamentGroup_data type count g = []"
    by simp
  have small: "OrnamentGroup_construct type count layers g =
      Inr \<lparr>pop_items = [], pop_mesh = 0, pop_layers = replicate layers 0\<rparr>"
    if "- 1 / 16 < count"
    using InstancedMesh_new_small [OF that assms]
    by (simp add: OrnamentGroup_construct_def d)
  have neg: "OrnamentGroup_construct type count layers g = Inl RangeError"
    if "count \<le> - 1 / 16"
    using InstancedMesh_new_negative [OF that]
    by (simp add: OrnamentGroup_construct_def)
  show ?thesis
    using d small neg by blast
qed

theorem OrnamentGroup_nonpositive_count_witness:
  "(0::real) \<le> 0 \<and> (- 2 :: real) \<le> 0 \<and> (- 1 / 16 :: real) < 0 \<and> (- 2 :: real) \<le> - 1 / 16 \<and>
   OrnamentGroup_data star 0 (sconst (1 / 2)) = [] \<and>
   OrnamentGroup_construct box 0 2 (sconst (1 / 2)) =
     Inr \<lparr>pop_items = [], pop_mesh = 0, pop_layers = [0, 0]\<rparr> \<and>
   OrnamentGroup_data star (- 2) (sconst (1 / 2)) = [] \<and>
   OrnamentGroup_construct box (- 2) 2 (sconst (1 / 2)) = Inl RangeError"
proof -
  have h0: "(0::real) \<le> 0" and h2: "(- 2 :: real) \<le> 0" by simp_all
  have a: "(- 1 / 16 :: real) < 0" and b: "(- 2 :: real) \<le> - 1 / 16" by simp_all
  have r: "replicate 2 (0::nat) = [0, 0]" by (simp add: numeral_2_eq_2)
  show ?thesis
    using OrnamentGroup_nonpositive_count [OF h0, of star "sconst (1 / 2)" 2]
      OrnamentGroup_nonpositive_count [OF h0, of box "sconst (1 / 2)" 2]
      OrnamentGroup_nonpositive_count [OF h2, of star "sconst (1 / 2)" 2]
      OrnamentGroup_nonpositive_count [OF h2, of box "sconst (1 / 2)" 2]
      a b r
    by simp
qed

section \<open>Progress controller: damping\<close>

lemma damp_factor:
  fixes timeConstant deltaTime :: real
  assumes "0 < timeConstant" and "0 \<le> deltaTime"
  shows "0 < exp (- (deltaTime / timeConstant))" and "exp (- (deltaTime / timeConstant)) \<le> 1"
proof -
  show "0 < exp (- (deltaTime / timeConstant))" by simp
  have "0 \<le> deltaTime / timeConstant" using assms by simp
  then show "exp (- (deltaTime / timeConstant)) \<le> 1" by simp
qed

lemma damp_factor_strict:
  fixes timeConstant deltaTime :: real
  assumes "0 < timeConstant" and "0 < deltaTime"
  shows "exp (- (deltaTime / timeConstant)) < 1"
proof -
  have "0 < deltaTime / timeConstant" using assms by simp
  then show ?thesis by simp
qed

lemma damp_step_up:
  assumes "0 < timeConstant" and "0 \<le> deltaTime" and "current \<le> goal"
  shows "current \<le> damp current goal timeConstant deltaTime"
    and "damp current goal timeConstant deltaTime \<le> goal"
proof -
  define r where "r = exp (- (deltaTime / timeConstant))"
  have r: "0 < r" "r \<le> 1" using damp_factor [OF assms(1,2)] by (simp_all add: r_def)
  have d: "damp current goal timeConstant deltaTime = goal + (current - goal) * r"
    by (simp add: damp_def r_def)
  have "(current - goal) * 1 \<le> (current - goal) * r"
    using r assms(3) by (intro mult_left_mono_neg) simp_all
  then show "current \<le> damp current goal timeConstant deltaTime"
    by (simp add: d)
  have "(current - goal) * r \<le> 0"
    using r assms(3) by (simp add: mult_le_0_iff)
  then show "damp current goal timeConstant deltaTime \<le> goal"
    by (simp add: d)
qed

lemma damp_step_down:
  assumes "0 < timeConstant" and "0 \<le> deltaTime" and "goal \<le> current"
  shows "damp current goal timeConstant deltaTime \<le> current"
    and "goal \<le> damp current goal timeConstant deltaTime"
proof -
  define r where "r = exp (- (deltaTime / timeConstant))"
  have r: "0 < r" "r \<le> 1" using damp_factor [OF assms(1,2)] by (simp_all add: r_def)
  have d: "damp current goal timeConstant deltaTime = goal + (current - goal) * r"
    by (simp add: damp_def r_def)
  have "(current - goal) * r \<le> (current - goal) * 1"
    using r assms(3) by (intro mult_left_mono) simp_all
  then show "damp current goal timeConstant deltaTime \<le> current"
    by (simp add: d)
  have "0 \<le> (current - goal) * r"
    using r assms(3) by simp
  then show "goal \<le> damp current goal timeConstant deltaTime"
    by (simp add: d)
qed

lemma damp_run_below:
  assumes "0 < timeConstant" and "0 \<le> deltaTime" and "current \<le> goal"
  shows "damp_run n current goal timeConstant deltaTime \<le> goal"
  by (induction n) (simp_all add: assms damp_step_up(2))

lemma damp_run_above:
  assumes "0 < timeConstant" and "0 \<le> deltaTime" and "goal \<le> current"
  shows "goal \<le> damp_run n current goal timeConstant deltaTime"
  by (induction n) (simp_all add: assms damp_step_down(2))

lemma damp_run_closed:
  "damp_run n current goal timeConstant deltaTime =
     goal + (current - goal) * exp (- (deltaTime / timeConstant)) ^ n"
proof (induction n)
  case 0
  show ?case by simp
next
  case (Suc n)
  show ?case by (simp add: Suc damp_def mult_ac)
qed

lemma damp_run_limit:
  assumes "0 < timeConstant" and "0 < deltaTime"
  shows "(\<lambda>n. damp_run n current goal timeConstant deltaTime) \<longlonglongrightarrow> goal"
proof -
  define r where "r = exp (- (deltaTime / timeConstant))"
  have "0 \<le> r" "r < 1"
    using damp_factor_strict [OF assms] by (simp_all add: r_def)
  then have "(\<lambda>n. r ^ n) \<longlonglongrightarrow> 0"
    by (rule LIMSEQ_realpow_zero)
  then have "(\<lambda>n. goal + (current - goal) * r ^ n) \<longlonglongrightarrow> goal + (current - goal) * 0"
    by (intro tendsto_add tendsto_mult tendsto_const)
  then show ?thesis
    by (simp add: damp_run_closed r_def)
qed

lemma damp_run_distance:
  assumes "0 < timeConstant" and "0 \<le> deltaTime"
  shows "\<bar>damp_run (Suc n) current goal timeConstant deltaTime - goal\<bar>
         \<le> \<bar>damp_run n current goal timeConstant deltaTime - goal\<bar>"
proof -
  define r where "r = exp (- (deltaTime / timeConstant))"
  define x where "x = damp_run n current goal timeConstant deltaTime"
  have r: "0 < r" "r \<le> 1" using damp_factor [OF assms] by (simp_all add: r_def)
  have "\<bar>damp x goal timeConstant deltaTime - goal\<bar> = \<bar>x - goal\<bar> * r"
    using r by (simp add: damp_def r_def abs_mult)
  also have "\<dots> \<le> \<bar>x - goal\<bar> * 1"
    using r by (intro mult_left_mono) simp_all
  finally show ?thesis by (simp add: x_def)
qed

lemma damp_zero_delta: "damp current goal timeConstant 0 = current"
  by (simp add: damp_def)

text \<open>
  C4. For every initial \<open>current\<close> in \<open>[0, 1]\<close>, goal 0 or 1 and positive time constant,
  repeated controller updates with a fixed \<open>deltaTime > 0\<close> give a monotone sequence
  (rising for goal 1, falling for goal 0) that never passes the goal, whose distance
  to the goal never grows, and which converges to the goal; and an update with
  \<open>deltaTime = 0\<close> leaves \<open>current\<close> unchanged.
\<close>

theorem damp_monotone_no_overshoot:
  assumes "0 \<le> current" and "current \<le> 1" and "goal = 0 \<or> goal = 1"
    and "0 < timeConstant" and "0 < deltaTime"
  shows "(goal = 1 \<longrightarrow>
            (\<forall>n. damp_run n current goal timeConstant deltaTime
                   \<le> damp_run (Suc n) current goal timeConstant deltaTime \<and>
                 damp_run n current goal timeConstant deltaTime \<le> goal)) \<and>
         (goal = 0 \<longrightarrow>
            (\<forall>n. damp_run (Suc n) current goal timeConstant deltaTime
                   \<le> damp_run n current goal timeConstant deltaTime \<and>
                 goal \<le> damp_run n current goal timeConstant deltaTime)) \<and>
         (\<forall>n. \<bar>damp_run (Suc n) current goal timeConstant deltaTime - goal\<bar>
                 \<le> \<bar>damp_run n current goal timeConstant deltaTime - goal\<bar>) \<and>
         (\<lambda>n. damp_run n current goal timeConstant deltaTime) \<longlonglongrightarrow> goal \<and>
         damp current goal timeConstant 0 = current"
proof -
  have dt: "0 \<le> deltaTime" using assms(5) by simp
  have up: "damp_run n current goal timeConstant deltaTime
              \<le> damp_run (Suc n) current goal timeConstant deltaTime \<and>
            damp_run n current goal timeConstant deltaTime \<le> goal" if "goal = 1" for n
  proof -
    have le: "current \<le> goal" using that assms(2) by simp
    have b: "damp_run n current goal timeConstant deltaTime \<le> goal"
      by (rule damp_run_below [OF assms(4) dt le])
    show ?thesis
      using damp_step_up(1) [OF assms(4) dt b] b by simp
  qed
  have down: "damp_run (Suc n) current goal timeConstant deltaTime
                \<le> damp_run n current goal timeConstant deltaTime \<and>
              goal \<le> damp_run n current goal timeConstant deltaTime" if "goal = 0" for n
  proof -
    have ge: "goal \<le> current" using that assms(1) by simp
    have b: "goal \<le> damp_run n current goal timeConstant deltaTime"
      by (rule damp_run_above [OF assms(4) dt ge])
    show ?thesis
      using damp_step_down(1) [OF assms(4) dt b] b by simp
  qed
  show ?thesis
    using up down damp_run_distance [OF assms(4) dt] damp_run_limit [OF assms(4,5)]
      damp_zero_delta by blast
qed

theorem damp_monotone_no_overshoot_witness:
  "(0::real) \<le> 1 / 2 \<and> (1::real) / 2 \<le> 1 \<and> (0::real) < 1.5 \<and> (0::real) < 1 / 60 \<and>
   damp_run 0 (1 / 2) 1 1.5 (1 / 60) \<le> damp_run (Suc 0) (1 / 2) 1 1.5 (1 / 60) \<and>
   damp_run (Suc 0) (1 / 2) 1 1.5 (1 / 60) \<le> 1 \<and>
   (\<lambda>n. damp_run n (1 / 2) 1 1.5 (1 / 60)) \<longlonglongrightarrow> 1 \<and>
   damp_run (Suc 0) (1 / 2) 0 1.5 (1 / 60) \<le> damp_run 0 (1 / 2) 0 1.5 (1 / 60) \<and>
   0 \<le> damp_run (Suc 0) (1 / 2) 0 1.5 (1 / 60) \<and>
   (\<lambda>n. damp_run n (1 / 2) 0 1.5 (1 / 60)) \<longlonglongrightarrow> 0 \<and>
   damp (1 / 2) 1 1.5 0 = 1 / 2"
proof -
  have h: "(0::real) \<le> 1 / 2" "(1::real) / 2 \<le> 1" "(0::real) < 1.5" "(0::real) < 1 / 60"
    by simp_all
  have g1: "(1::real) = 0 \<or> (1::real) = 1" and g0: "(0::real) = 0 \<or> (0::real) = 1"
    by simp_all
  show ?thesis
    using h damp_monotone_no_overshoot [OF h(1,2) g1 h(3,4)]
      damp_monotone_no_overshoot [OF h(1,2) g0 h(3,4)]
    by blast
qed

section \<open>Non-finite frame delta\<close>

















end
